theory Spec2Isabelle
  imports Complex_Main "HOL-Library.Multiset"
begin

section \<open>Password generator and strength evaluator (Password\_Generator.py)\<close>

text \<open>
  A shallow embedding of \<^verbatim>\<open>generate_password\<close> and \<^verbatim>\<open>evaluate_password_strength\<close>.

  Conventions of the embedding:
  \<^item> a Python \<^verbatim>\<open>str\<close> is a \<^typ>\<open>string\<close>, one \<^typ>\<open>char\<close> per character; a character
    outside ASCII is any \<^typ>\<open>char\<close> that is in none of the four alphabets;
  \<^item> a Python \<^verbatim>\<open>int\<close> is an \<^typ>\<open>int\<close>;
  \<^item> a Python \<^verbatim>\<open>float\<close> is a \<^typ>\<open>real\<close>: \<^verbatim>\<open>math.log2\<close> is the real logarithm to base 2
    and the arithmetic on floats is exact, so rounding errors of the binary64
    arithmetic are outside the model;
  \<^item> a raised exception is the left injection of a sum;
  \<^item> the operating system's random source is a sequence of natural numbers, passed
    in and returned; every statement about the generator holds for every such sequence;
  \<^item> text written by \<^verbatim>\<open>print\<close> is returned as a list of lines.
\<close>

subsection \<open>Constants of the module and of Python's \<^verbatim>\<open>string\<close> module\<close>

datatype error = ValueError string | IndexError string

definition MIN_LENGTH :: int where
  "MIN_LENGTH = 8"

definition string_ascii_lowercase :: string where
  "string_ascii_lowercase = ''abcdefghijklmnopqrstuvwxyz''"

definition string_ascii_uppercase :: string where
  "string_ascii_uppercase = ''ABCDEFGHIJKLMNOPQRSTUVWXYZ''"

definition string_digits :: string where
  "string_digits = ''0123456789''"

text \<open>
  \<^verbatim>\<open>string.punctuation\<close>; the double quote, the apostrophe, the backslash and the
  backquote are written by their codes.
\<close>

definition string_punctuation :: string where
  "string_punctuation = ''!'' @ [CHR 0x22] @ ''#$%&'' @ [CHR 0x27] @ ''()*+,-./:;<=>?@[''
     @ [CHR 0x5C] @ '']^_'' @ [CHR 0x60] @ ''{|}~''"

subsection \<open>Text of numbers\<close>

definition digit_char :: "nat \<Rightarrow> char" where
  "digit_char d = char_of (48 + d)"

text \<open>\<^verbatim>\<open>str(n)\<close> for a natural number: its decimal digits.\<close>

fun str_nat :: "nat \<Rightarrow> string" where
  "str_nat n = (if n < 10 then [digit_char n] else str_nat (n div 10) @ [digit_char (n mod 10)])"

declare str_nat.simps [simp del]

definition str_int :: "int \<Rightarrow> string" where
  "str_int i = (if i < 0 then ''-'' @ str_nat (nat (- i)) else str_nat (nat i))"

text \<open>Rounding to the nearest integer, a tie going to the even neighbour.\<close>

definition round_half_even :: "real \<Rightarrow> int" where
  "round_half_even y =
     (let f = \<lfloor>y\<rfloor>; d = y - of_int f
      in if d < 1 / 2 then f else if d > 1 / 2 then f + 1 else if even f then f else f + 1)"

text \<open>The format \<^verbatim>\<open>{x:.1f}\<close>: sign, integer part, a point and one decimal.\<close>

definition format_1f :: "real \<Rightarrow> string" where
  "format_1f x =
     (let t = nat (round_half_even (\<bar>x\<bar> * 10))
      in (if x < 0 then ''-'' else '''') @ str_nat (t div 10) @ ''.'' @ str_nat (t mod 10))"

subsection \<open>The strength evaluator\<close>

text \<open>
  \<^verbatim>\<open>any(c in alphabet for c in password)\<close>: for a single character \<^verbatim>\<open>c\<close> the
  substring test \<^verbatim>\<open>c in alphabet\<close> is membership.
\<close>

definition any_in :: "string \<Rightarrow> string \<Rightarrow> bool" where
  "any_in alphabet password = list_ex (\<lambda>c. c \<in> set alphabet) password"

text \<open>
  The function keeps two local variables, \<^verbatim>\<open>score\<close> and \<^verbatim>\<open>feedback\<close>, which every
  block of the body updates; a block is a function on the pair of both.
\<close>

type_synonym tally = "int \<times> string list"

text \<open>Length-based score (lines 79 to 96).\<close>

definition length_criterion :: "string \<Rightarrow> tally \<Rightarrow> tally" where
  "length_criterion password = (\<lambda>(score, feedback).
     if int (length password) \<ge> 20 then (score + 5, feedback @ [''Excellent length''])
     else if int (length password) \<ge> 16 then (score + 4, feedback @ [''Very good length''])
     else if int (length password) \<ge> 12 then (score + 3, feedback @ [''Good length''])
     else if int (length password) \<ge> 10 then (score + 2, feedback @ [''Moderate length''])
     else if int (length password) \<ge> 8 then (score + 1, feedback @ [''Minimum acceptable length''])
     else (score, feedback @ [''Password too short'']))"

text \<open>One of the four tests of the character set diversity (lines 98 to 117).\<close>

definition class_criterion :: "string \<Rightarrow> string \<Rightarrow> string \<Rightarrow> tally \<Rightarrow> tally" where
  "class_criterion alphabet missing password = (\<lambda>(score, feedback).
     if any_in alphabet password then (score + 1, feedback)
     else (score, feedback @ [missing]))"

definition diversity_criterion :: "string \<Rightarrow> tally \<Rightarrow> tally" where
  "diversity_criterion password t =
     class_criterion string_punctuation ''Missing special characters'' password
       (class_criterion string_digits ''Missing numbers'' password
         (class_criterion string_ascii_uppercase ''Missing uppercase letters'' password
           (class_criterion string_ascii_lowercase ''Missing lowercase letters'' password t)))"

text \<open>The size of the character set (lines 120 to 128).\<close>

definition char_set_size :: "string \<Rightarrow> int" where
  "char_set_size password =
     (let char_set_size = 0;
          char_set_size = (if any_in string_ascii_lowercase password then char_set_size + 26 else char_set_size);
          char_set_size = (if any_in string_ascii_uppercase password then char_set_size + 26 else char_set_size);
          char_set_size = (if any_in string_digits password then char_set_size + 10 else char_set_size);
          char_set_size = (if any_in string_punctuation password
                           then char_set_size + int (length string_punctuation) else char_set_size)
      in char_set_size)"

text \<open>\<^verbatim>\<open>math.log2\<close> raises \<^verbatim>\<open>ValueError\<close> on an argument that is not positive.\<close>

definition math_log2 :: "int \<Rightarrow> error + real" where
  "math_log2 x = (if x \<le> 0 then Inl (ValueError ''math domain error'') else Inr (log 2 (of_int x)))"

text \<open>
  Line 130. The conditional expression evaluates \<^verbatim>\<open>math.log2\<close> only when the size is
  positive.
\<close>

definition calculate_entropy :: "string \<Rightarrow> error + real" where
  "calculate_entropy password =
     (if char_set_size password > 0
      then (case math_log2 (char_set_size password) of
              Inl e \<Rightarrow> Inl e
            | Inr l \<Rightarrow> Inr (real (length password) * l))
      else Inr 0)"

text \<open>Entropy-based score (lines 132 to 147).\<close>

definition entropy_criterion :: "real \<Rightarrow> tally \<Rightarrow> tally" where
  "entropy_criterion entropy = (\<lambda>(score, feedback).
     if entropy \<ge> 100 then (score + 5, feedback @ [''Very high entropy ('' @ format_1f entropy @ '' bits)''])
     else if entropy \<ge> 80 then (score + 4, feedback @ [''High entropy ('' @ format_1f entropy @ '' bits)''])
     else if entropy \<ge> 60 then (score + 3, feedback @ [''Good entropy ('' @ format_1f entropy @ '' bits)''])
     else if entropy \<ge> 40 then (score + 2, feedback @ [''Moderate entropy ('' @ format_1f entropy @ '' bits)''])
     else if entropy > 0 then (score + 1, feedback @ [''Low entropy ('' @ format_1f entropy @ '' bits)''])
     else (score, feedback))"

text \<open>The descriptive rating and its colour (lines 153 to 167).\<close>

definition rating :: "real \<Rightarrow> string \<times> string" where
  "rating percentage =
     (if percentage \<ge> 90 then (''Excellent'', CHR 0x1B # ''[92m'')
      else if percentage \<ge> 70 then (''Strong'', CHR 0x1B # ''[92m'')
      else if percentage \<ge> 50 then (''Moderate'', CHR 0x1B # ''[93m'')
      else if percentage \<ge> 30 then (''Weak'', CHR 0x1B # ''[91m'')
      else (''Very Weak'', CHR 0x1B # ''[91m''))"

text \<open>
  The dictionary the function returns. The local variables of the body carry a prime
  below, the fields of the record have the keys of the dictionary.
\<close>

record report =
  score :: int
  max_score :: int
  percentage :: real
  strength :: string
  color :: string
  reset :: string
  feedback :: "string list"
  entropy :: real

definition evaluate_password_strength :: "string \<Rightarrow> error + report" where
  "evaluate_password_strength password =
     (let t = diversity_criterion password (length_criterion password (0, []))
      in case calculate_entropy password of
           Inl e \<Rightarrow> Inl e
         | Inr entropy' \<Rightarrow>
             (let (score', feedback') = entropy_criterion entropy' t;
                  max_score' = 14;
                  percentage' = (of_int score' / of_int max_score') * 100;
                  (strength', color') = rating percentage';
                  reset' = CHR 0x1B # ''[0m''
              in Inr \<lparr>score = score', max_score = max_score', percentage = percentage',
                      strength = strength', color = color', reset = reset',
                      feedback = feedback', entropy = entropy'\<rparr>))"

text \<open>
  The points each block adds to the score: the length score, the diversity score
  and the entropy score.
\<close>

definition length_points :: "string \<Rightarrow> int" where
  "length_points password = fst (length_criterion password (0, []))"

definition diversity_points :: "string \<Rightarrow> int" where
  "diversity_points password = fst (diversity_criterion password (0, []))"

definition entropy_points :: "real \<Rightarrow> int" where
  "entropy_points e = fst (entropy_criterion e (0, []))"

text \<open>The feedback each block appends.\<close>

definition length_notes :: "string \<Rightarrow> string list" where
  "length_notes password = snd (length_criterion password (0, []))"

definition diversity_notes :: "string \<Rightarrow> string list" where
  "diversity_notes password = snd (diversity_criterion password (0, []))"

definition entropy_notes :: "real \<Rightarrow> string list" where
  "entropy_notes e = snd (entropy_criterion e (0, []))"

text \<open>
  The value, the total and the feedback that the body computes, as functions of the
  password; \<open>calculate_entropy_eq\<close> and \<open>tally_eq\<close> below prove that they are what the
  blocks compute.
\<close>

definition the_entropy :: "string \<Rightarrow> real" where
  "the_entropy p =
     (if char_set_size p > 0 then real (length p) * log 2 (of_int (char_set_size p)) else 0)"

definition total_points :: "string \<Rightarrow> int" where
  "total_points p = length_points p + diversity_points p + entropy_points (the_entropy p)"

definition all_notes :: "string \<Rightarrow> string list" where
  "all_notes p = length_notes p @ diversity_notes p @ entropy_notes (the_entropy p)"

subsection \<open>The random source\<close>

text \<open>
  The numbers the operating system delivers, in the order of delivery. A computation
  that draws from the source takes it and returns what is left of it, with its result
  or the exception it raised.
\<close>

type_synonym rand = "nat \<Rightarrow> nat"

type_synonym 'a gen = "rand \<Rightarrow> (error + 'a) \<times> rand"

definition return_gen :: "'a \<Rightarrow> 'a gen" where
  "return_gen a rs = (Inr a, rs)"

definition bind_gen :: "'a gen \<Rightarrow> ('a \<Rightarrow> 'b gen) \<Rightarrow> 'b gen" where
  "bind_gen m f rs = (case m rs of (Inl e, rs') \<Rightarrow> (Inl e, rs') | (Inr a, rs') \<Rightarrow> f a rs')"

text \<open>\<^verbatim>\<open>_randbelow(n)\<close> for a positive \<open>n\<close>: a number below \<open>n\<close>.\<close>

definition randbelow :: "nat \<Rightarrow> rand \<Rightarrow> nat \<times> rand" where
  "randbelow n rs = (rs 0 mod n, \<lambda>k. rs (Suc k))"

text \<open>\<^verbatim>\<open>secrets.choice(seq)\<close>, which raises \<^verbatim>\<open>IndexError\<close> on an empty sequence.\<close>

definition secrets_choice :: "'a list \<Rightarrow> 'a gen" where
  "secrets_choice seq rs =
     (if length seq = 0 then (Inl (IndexError ''Cannot choose from an empty sequence''), rs)
      else (let (i, rs') = randbelow (length seq) rs in (Inr (seq ! i), rs')))"

text \<open>
  \<^verbatim>\<open>SystemRandom().shuffle(x)\<close>: for \<open>i\<close> from \<open>len(x) - 1\<close> down to 1, the element at
  \<open>i\<close> changes place with the one at a random \<open>j \<le> i\<close>. The tuple assignment
  \<^verbatim>\<open>x[i], x[j] = x[j], x[i]\<close> reads both elements, then writes \<open>x[i]\<close>, then \<open>x[j]\<close>.
\<close>

fun shuffle_loop :: "nat \<Rightarrow> 'a list \<Rightarrow> rand \<Rightarrow> 'a list \<times> rand" where
  "shuffle_loop 0 x rs = (x, rs)"
| "shuffle_loop (Suc k) x rs =
     (let i = Suc k; (j, rs') = randbelow (i + 1) rs
      in shuffle_loop k (x[i := x ! j, j := x ! i]) rs')"

definition shuffle :: "'a list \<Rightarrow> rand \<Rightarrow> 'a list \<times> rand" where
  "shuffle x rs = shuffle_loop (length x - 1) x rs"

subsection \<open>The generator\<close>

text \<open>
  Lines 31 to 33: a length below the minimum is replaced by the minimum, and a line
  is printed.
\<close>

definition ensure_minimum_length :: "int \<Rightarrow> string list \<times> int" where
  "ensure_minimum_length length' =
     (if length' < MIN_LENGTH
      then ([''Password length must be at least '' @ str_int MIN_LENGTH
              @ ''. Setting length to '' @ str_int MIN_LENGTH @ ''.''], MIN_LENGTH)
      else ([], length'))"

text \<open>The character sets (lines 36 to 42).\<close>

definition lowercase_letters :: string where
  "lowercase_letters = string_ascii_lowercase"

definition uppercase_letters :: "bool \<Rightarrow> string" where
  "uppercase_letters use_uppercase = (if use_uppercase then string_ascii_uppercase else [])"

definition digits :: "bool \<Rightarrow> string" where
  "digits use_numbers = (if use_numbers then string_digits else [])"

definition symbols :: "bool \<Rightarrow> string" where
  "symbols use_symbols = (if use_symbols then string_punctuation else [])"

definition all_characters :: "bool \<Rightarrow> bool \<Rightarrow> bool \<Rightarrow> string" where
  "all_characters use_uppercase use_numbers use_symbols =
     lowercase_letters @ uppercase_letters use_uppercase @ digits use_numbers @ symbols use_symbols"

text \<open>\<^verbatim>\<open>if flag: password.append(secrets.choice(alphabet))\<close>\<close>

definition append_choice :: "bool \<Rightarrow> string \<Rightarrow> string \<Rightarrow> string gen" where
  "append_choice flag alphabet password =
     (if flag then bind_gen (secrets_choice alphabet) (\<lambda>c. return_gen (password @ [c]))
      else return_gen password)"

text \<open>One character from each selected set (lines 49 to 58).\<close>

definition required_characters :: "bool \<Rightarrow> bool \<Rightarrow> bool \<Rightarrow> string gen" where
  "required_characters use_uppercase use_numbers use_symbols =
     bind_gen (secrets_choice lowercase_letters) (\<lambda>c.
     bind_gen (append_choice use_uppercase (uppercase_letters use_uppercase) [c]) (\<lambda>password.
     bind_gen (append_choice use_numbers (digits use_numbers) password) (\<lambda>password.
     append_choice use_symbols (symbols use_symbols) password)))"

text \<open>Line 61.\<close>

definition remaining_length :: "int \<Rightarrow> string \<Rightarrow> int" where
  "remaining_length length' password = length' - int (length password)"

text \<open>
  \<^verbatim>\<open>secrets.choice(all_characters) for _ in range(n)\<close> (line 62), for the number \<open>n\<close> of
  rounds of the loop.
\<close>

fun choices :: "nat \<Rightarrow> 'a list \<Rightarrow> 'a list gen" where
  "choices 0 seq = return_gen []"
| "choices (Suc n) seq =
     bind_gen (secrets_choice seq) (\<lambda>c. bind_gen (choices n seq) (\<lambda>cs. return_gen (c # cs)))"

text \<open>
  The function returns the lines it printed and the password or the exception.
  \<^verbatim>\<open>range\<close> of a negative number is empty, hence the conversion by \<^const>\<open>nat\<close>.
\<close>

definition generate_password ::
    "int \<Rightarrow> bool \<Rightarrow> bool \<Rightarrow> bool \<Rightarrow> rand \<Rightarrow> string list \<times> (error + string)" where
  "generate_password length' use_uppercase use_numbers use_symbols rs =
     (let (printed, length'') = ensure_minimum_length length'
      in if all_characters use_uppercase use_numbers use_symbols = []
         then (printed, Inl (ValueError
            ''At least one character set (lowercase, uppercase, digits, symbols) must be selected.''))
         else (printed, fst (bind_gen (required_characters use_uppercase use_numbers use_symbols)
            (\<lambda>password.
               bind_gen (choices (nat (remaining_length length'' password))
                           (all_characters use_uppercase use_numbers use_symbols))
                 (\<lambda>rest rs. let (shuffled, rs') = shuffle (password @ rest) rs
                            in (Inr shuffled, rs'))) rs)))"

subsection \<open>Notions of the specification\<close>

text \<open>
  The active alphabet size in the words of the specification: 26 if any lowercase
  letter is present, plus 26 if any uppercase letter, plus 10 if any digit, plus the
  size of the punctuation set if any symbol is present.
\<close>

definition activeAlphabetSize :: "string \<Rightarrow> nat" where
  "activeAlphabetSize password =
     (if \<exists>c\<in>set password. c \<in> set string_ascii_lowercase then 26 else 0)
     + (if \<exists>c\<in>set password. c \<in> set string_ascii_uppercase then 26 else 0)
     + (if \<exists>c\<in>set password. c \<in> set string_digits then 10 else 0)
     + (if \<exists>c\<in>set password. c \<in> set string_punctuation
        then card (set string_punctuation) else 0)"

text \<open>A character that belongs to one of the four classes.\<close>

definition classified :: "char \<Rightarrow> bool" where
  "classified c \<longleftrightarrow>
     c \<in> set string_ascii_lowercase \<or> c \<in> set string_ascii_uppercase
     \<or> c \<in> set string_digits \<or> c \<in> set string_punctuation"

subsection \<open>Facts about the evaluator\<close>

lemma any_in_iff: "any_in alphabet password \<longleftrightarrow> (\<exists>c\<in>set password. c \<in> set alphabet)"
  by (simp add: any_in_def list_ex_iff)

lemma length_punctuation: "length string_punctuation = 32"
  by (simp add: string_punctuation_def)

lemma distinct_punctuation: "distinct string_punctuation"
  by (simp add: string_punctuation_def)

lemma char_set_size_eq:
  "char_set_size p =
     (if any_in string_ascii_lowercase p then 26 else 0)
     + (if any_in string_ascii_uppercase p then 26 else 0)
     + (if any_in string_digits p then 10 else 0)
     + (if any_in string_punctuation p then 32 else 0)"
  by (simp add: char_set_size_def length_punctuation)

lemma calculate_entropy_eq: "calculate_entropy p = Inr (the_entropy p)"
  by (simp add: calculate_entropy_def math_log2_def the_entropy_def)

lemma length_criterion_eq:
  "length_criterion p (s, f) = (s + length_points p, f @ length_notes p)"
  by (simp add: length_criterion_def length_points_def length_notes_def)

lemma class_criterion_eq:
  "class_criterion a m p (s, f) =
     (s + (if any_in a p then 1 else 0), f @ (if any_in a p then [] else [m]))"
  by (simp add: class_criterion_def)

lemma diversity_criterion_eq:
  "diversity_criterion p (s, f) = (s + diversity_points p, f @ diversity_notes p)"
  by (simp add: diversity_criterion_def diversity_points_def diversity_notes_def
      class_criterion_eq)

lemma entropy_criterion_eq:
  "entropy_criterion e (s, f) = (s + entropy_points e, f @ entropy_notes e)"
  by (simp add: entropy_criterion_def entropy_points_def entropy_notes_def)

lemma length_points_bounds: "0 \<le> length_points p \<and> length_points p \<le> 5"
  by (simp add: length_criterion_def length_points_def)

lemma diversity_points_eq:
  "diversity_points p =
     (if any_in string_ascii_lowercase p then 1 else 0)
     + (if any_in string_ascii_uppercase p then 1 else 0)
     + (if any_in string_digits p then 1 else 0)
     + (if any_in string_punctuation p then 1 else 0)"
  by (simp add: diversity_criterion_def diversity_points_def class_criterion_eq)

lemma diversity_notes_eq:
  "diversity_notes p =
     (if any_in string_ascii_lowercase p then [] else [''Missing lowercase letters''])
     @ (if any_in string_ascii_uppercase p then [] else [''Missing uppercase letters''])
     @ (if any_in string_digits p then [] else [''Missing numbers''])
     @ (if any_in string_punctuation p then [] else [''Missing special characters''])"
  by (simp add: diversity_criterion_def diversity_notes_def class_criterion_eq)

lemma diversity_points_bounds: "0 \<le> diversity_points p \<and> diversity_points p \<le> 4"
  by (simp add: diversity_points_eq)

lemma entropy_points_bounds: "0 \<le> entropy_points e \<and> entropy_points e \<le> 5"
  by (simp add: entropy_criterion_def entropy_points_def)

lemma total_points_bounds: "0 \<le> total_points p \<and> total_points p \<le> 14"
  using length_points_bounds [of p] diversity_points_bounds [of p]
    entropy_points_bounds [of "the_entropy p"]
  by (simp add: total_points_def)

lemma tally_eq:
  "entropy_criterion (the_entropy p) (diversity_criterion p (length_criterion p (0, [])))
     = (total_points p, all_notes p)"
  by (simp add: length_criterion_eq diversity_criterion_eq entropy_criterion_eq
      total_points_def all_notes_def)

text \<open>The report in closed form: the function is total.\<close>

lemma evaluate_eq:
  "evaluate_password_strength p =
     Inr \<lparr>score = total_points p,
          max_score = 14,
          percentage = of_int (total_points p) / 14 * 100,
          strength = fst (rating (of_int (total_points p) / 14 * 100)),
          color = snd (rating (of_int (total_points p) / 14 * 100)),
          reset = CHR 0x1B # ''[0m'',
          feedback = all_notes p,
          entropy = the_entropy p\<rparr>"
  unfolding evaluate_password_strength_def calculate_entropy_eq
  by (simp only: Let_def sum.case tally_eq split_conv split_beta of_int_numeral
      fst_conv snd_conv)

text \<open>What the report depends on: the length and the classes that occur.\<close>

lemma length_criterion_cong:
  "length p = length q \<Longrightarrow> length_criterion p t = length_criterion q t"
  unfolding length_criterion_def by (erule subst) (rule refl)

lemma report_cong:
  assumes "length p = length q"
    and "\<And>a. any_in a p = any_in a q"
  shows "evaluate_password_strength p = evaluate_password_strength q"
proof -
  have "char_set_size p = char_set_size q"
    by (simp add: char_set_size_eq assms(2))
  then have e: "the_entropy p = the_entropy q"
    by (simp add: the_entropy_def assms(1))
  have l: "length_points p = length_points q" "length_notes p = length_notes q"
    by (simp_all add: length_points_def length_notes_def length_criterion_cong [OF assms(1)])
  have d: "diversity_points p = diversity_points q" "diversity_notes p = diversity_notes q"
    by (simp_all add: diversity_points_eq diversity_notes_eq assms(2))
  have "total_points p = total_points q" "all_notes p = all_notes q"
    by (simp_all add: total_points_def all_notes_def e l d)
  then show ?thesis
    by (simp only: evaluate_eq e)
qed

lemma mset_any_in: "mset p = mset q \<Longrightarrow> any_in a p = any_in a q"
  using mset_eq_setD [of p q] by (simp add: any_in_iff)

subsection \<open>Properties of the evaluator\<close>

lemma card_punctuation: "card (set string_punctuation) = 32"
  using distinct_card [OF distinct_punctuation] by (simp add: length_punctuation)

lemma activeAlphabetSize_eq: "int (activeAlphabetSize p) = char_set_size p"
  by (simp add: activeAlphabetSize_def char_set_size_eq any_in_iff card_punctuation)

text \<open>
  Claim C2. For every password, the entropy of the report is the length of the
  password times the logarithm to base 2 of the active alphabet size (26 for a
  lowercase letter present, 26 for an uppercase letter, 10 for a digit, the size of
  the punctuation set for a symbol), and 0 when that size is 0.
\<close>

theorem entropy_formula:
  "\<exists>r. evaluate_password_strength password = Inr r \<and>
       entropy r = (if activeAlphabetSize password = 0 then 0
                    else real (length password) * log 2 (real (activeAlphabetSize password)))"
proof -
  have "char_set_size password > 0 \<longleftrightarrow> activeAlphabetSize password \<noteq> 0"
    using activeAlphabetSize_eq [of password] by linarith
  moreover have "(of_int (char_set_size password) :: real) = real (activeAlphabetSize password)"
    using activeAlphabetSize_eq [of password] by (metis of_int_of_nat_eq)
  ultimately show ?thesis
    by (simp add: evaluate_eq the_entropy_def)
qed

theorem entropy_formula_witness:
  "\<exists>r. evaluate_password_strength ''aB3!'' = Inr r \<and> entropy r = 4 * log 2 94"
proof -
  have "activeAlphabetSize ''aB3!'' = 94"
    by (simp add: activeAlphabetSize_def card_punctuation string_ascii_lowercase_def
        string_ascii_uppercase_def string_digits_def string_punctuation_def)
  with entropy_formula [of "''aB3!''"] show ?thesis
    by simp
qed

text \<open>
  Claim C3. For every password, the percentage of the report is the score divided
  by 14, times 100, and the rating is Excellent from 90, Strong from 70, Moderate
  from 50, Weak from 30 and Very Weak below.
\<close>

theorem rating_thresholds:
  "\<exists>r. evaluate_password_strength password = Inr r \<and>
       percentage r = of_int (score r) / 14 * 100 \<and>
       strength r =
         (if percentage r \<ge> 90 then ''Excellent''
          else if percentage r \<ge> 70 then ''Strong''
          else if percentage r \<ge> 50 then ''Moderate''
          else if percentage r \<ge> 30 then ''Weak''
          else ''Very Weak'')"
  by (simp add: evaluate_eq rating_def)

theorem rating_thresholds_witness:
  "\<exists>r. evaluate_password_strength ''Ab3!Ab3!Ab3!Ab3!Ab3!'' = Inr r
       \<and> score r = 14 \<and> percentage r = 100 \<and> strength r = ''Excellent''"
proof -
  let ?p = "''Ab3!Ab3!Ab3!Ab3!Ab3!''"
  have a: "any_in string_ascii_lowercase ?p" "any_in string_ascii_uppercase ?p"
      "any_in string_digits ?p" "any_in string_punctuation ?p"
    by (simp_all add: any_in_def string_ascii_lowercase_def string_ascii_uppercase_def
        string_digits_def string_punctuation_def)
  have l: "length_points ?p = 5"
    by (simp add: length_points_def length_criterion_def)
  have d: "diversity_points ?p = 4"
    by (simp add: diversity_points_eq a)
  have "char_set_size ?p = 94"
    by (simp add: char_set_size_eq a)
  then have e: "the_entropy ?p = 20 * log 2 94"
    by (simp add: the_entropy_def)
  have "log 2 (32::real) \<le> log 2 94"
    by (subst log_le_cancel_iff) simp_all
  moreover have "log 2 (32::real) = 5"
    using log_nat_power [of 2 2 5] by simp
  ultimately have "100 \<le> 20 * log 2 (94::real)"
    by simp
  then have "entropy_points (the_entropy ?p) = 5"
    by (simp add: e entropy_points_def entropy_criterion_def)
  then have t: "total_points ?p = 14"
    by (simp add: total_points_def l d)
  obtain r where r: "evaluate_password_strength ?p = Inr r"
      "percentage r = of_int (score r) / 14 * 100"
      "strength r =
         (if percentage r \<ge> 90 then ''Excellent''
          else if percentage r \<ge> 70 then ''Strong''
          else if percentage r \<ge> 50 then ''Moderate''
          else if percentage r \<ge> 30 then ''Weak''
          else ''Very Weak'')"
    using rating_thresholds [of ?p] by blast
  have "score r = 14"
    using r(1) unfolding evaluate_eq by (auto simp add: t)
  with r show ?thesis
    by simp
qed

text \<open>
  Claim C4. A permutation of the characters of a password has the same report:
  score, percentage, rating, entropy and feedback.
\<close>

theorem permutation_invariance:
  "mset p = mset q \<Longrightarrow> evaluate_password_strength p = evaluate_password_strength q"
proof (rule report_cong)
  assume m: "mset p = mset q"
  show "length p = length q"
    using m by (rule mset_eq_length)
  show "any_in a p = any_in a q" for a
    using m by (rule mset_any_in)
qed

theorem permutation_invariance_witness:
  "mset ''Ab3!'' = mset ''!3bA'' \<and>
   evaluate_password_strength ''Ab3!'' = evaluate_password_strength ''!3bA''"
proof -
  have m: "mset ''Ab3!'' = mset ''!3bA''"
    by (simp add: add.commute add.left_commute)
  show ?thesis
    using m permutation_invariance [OF m] by simp
qed

lemma the_entropy_nonneg: "0 \<le> the_entropy p"
proof (cases "char_set_size p > 0")
  case True
  then have "1 \<le> (of_int (char_set_size p) :: real)"
    by simp
  then have "0 \<le> log 2 (of_int (char_set_size p))"
    by simp
  then show ?thesis
    by (simp add: the_entropy_def)
next
  case False
  then show ?thesis
    by (simp add: the_entropy_def)
qed

lemma any_in_Nil: "\<not> any_in a []"
  by (simp add: any_in_def)

text \<open>
  Claim C6. The evaluator never fails: every string has a report, with a score
  between 0 and 14; the empty string has score 0, entropy 0 and the rating Very Weak.
\<close>

theorem evaluate_never_fails:
  "(\<exists>r. evaluate_password_strength password = Inr r \<and> 0 \<le> score r \<and> score r \<le> 14
        \<and> max_score r = 14 \<and> 0 \<le> entropy r)
   \<and> (\<exists>r. evaluate_password_strength [] = Inr r \<and> score r = 0 \<and> entropy r = 0
        \<and> strength r = ''Very Weak'')"
proof -
  have "char_set_size [] = 0"
    by (simp add: char_set_size_eq any_in_Nil)
  then have e: "the_entropy [] = 0"
    by (simp add: the_entropy_def)
  have "length_points [] = 0" "diversity_points [] = 0" "entropy_points 0 = 0"
    by (simp_all add: length_points_def length_criterion_def diversity_points_eq any_in_Nil
        entropy_points_def entropy_criterion_def)
  then have t: "total_points [] = 0"
    by (simp add: total_points_def e)
  show ?thesis
    using total_points_bounds [of password] the_entropy_nonneg [of password]
    by (simp add: evaluate_eq t e rating_def)
qed

lemma log2_26_approx: "376 / 10 < 8 * log 2 (26::real) \<and> 8 * log 2 (26::real) < 3765 / 100"
proof -
  have p26: "log 2 ((26::real) ^ n) = real n * log 2 26" for n
    by (rule log_nat_power) simp
  have p2: "log 2 ((2::real) ^ n) = real n" for n
    using log_nat_power [of 2 2 n] by simp
  have "log 2 ((2::real) ^ 47) < log 2 (26 ^ 10)"
    by (subst log_less_cancel_iff) simp_all
  then have lo: "47 < 10 * log 2 (26::real)"
    unfolding p26 p2 by simp
  have "log 2 ((26::real) ^ 160) < log 2 (2 ^ 753)"
    by (subst log_less_cancel_iff) simp_all
  then have hi: "160 * log 2 (26::real) < 753"
    unfolding p26 p2 by simp
  from lo hi show ?thesis
    by simp
qed

lemma any_in_aaaaaaaa:
  "any_in string_ascii_lowercase ''aaaaaaaa''" "\<not> any_in string_ascii_uppercase ''aaaaaaaa''"
  "\<not> any_in string_digits ''aaaaaaaa''" "\<not> any_in string_punctuation ''aaaaaaaa''"
  by (simp_all add: any_in_def string_ascii_lowercase_def string_ascii_uppercase_def
      string_digits_def string_punctuation_def)

text \<open>
  Claim C7. The password of eight letters a has length score 1, diversity score 1,
  entropy 8 * log2 26, which is about 37.6 and below 40, entropy score 1 and total
  score 3.
\<close>

theorem eight_lowercase_letters:
  "\<exists>r. evaluate_password_strength ''aaaaaaaa'' = Inr r
       \<and> length_points ''aaaaaaaa'' = 1
       \<and> diversity_points ''aaaaaaaa'' = 1
       \<and> entropy r = 8 * log 2 26
       \<and> 376 / 10 < entropy r \<and> entropy r < 3765 / 100 \<and> entropy r < 40
       \<and> entropy_points (entropy r) = 1
       \<and> score r = 3"
proof -
  have l: "length_points ''aaaaaaaa'' = 1"
    by (simp add: length_points_def length_criterion_def)
  have d: "diversity_points ''aaaaaaaa'' = 1"
    by (simp add: diversity_points_eq any_in_aaaaaaaa)
  have "char_set_size ''aaaaaaaa'' = 26"
    by (simp add: char_set_size_eq any_in_aaaaaaaa)
  then have e: "the_entropy ''aaaaaaaa'' = 8 * log 2 26"
    by (simp add: the_entropy_def)
  have b: "376 / 10 < 8 * log 2 (26::real)" "8 * log 2 (26::real) < 3765 / 100"
    using log2_26_approx by simp_all
  then have b': "0 < 8 * log 2 (26::real)" "8 * log 2 (26::real) < 40"
    by linarith+
  have p: "entropy_points (8 * log 2 26) = 1"
    using b' by (simp add: entropy_points_def entropy_criterion_def)
  have t: "total_points ''aaaaaaaa'' = 3"
    by (simp add: total_points_def l d e p)
  show ?thesis
    unfolding evaluate_eq using b b'(2) by (simp add: l d e p t)
qed

lemma any_in_filter_classified:
  "a \<in> {string_ascii_lowercase, string_ascii_uppercase, string_digits, string_punctuation}
     \<Longrightarrow> any_in a (filter classified q) = any_in a q"
  by (auto simp add: any_in_iff classified_def)

lemma any_in_unclassified:
  assumes "filter classified q = []"
  shows "\<not> any_in string_ascii_lowercase q" "\<not> any_in string_ascii_uppercase q"
    "\<not> any_in string_digits q" "\<not> any_in string_punctuation q"
  using assms any_in_filter_classified [of _ q] by (simp_all add: any_in_Nil)

text \<open>
  Claim C9. Characters in none of the four classes count for the length, which the
  length score and the entropy use, and add nothing to the diversity score or to the
  size of the character set: both are those of the password without these
  characters. A password of at least 8 characters, all of them in no class, has
  diversity score 0, entropy 0 and a total score that is its length score.
\<close>

theorem unclassified_characters:
  "diversity_points q = diversity_points (filter classified q)
   \<and> char_set_size q = char_set_size (filter classified q)
   \<and> length_points q = fst (length_criterion (replicate (length q) CHR ''a'') (0, []))
   \<and> (\<exists>r. evaluate_password_strength q = Inr r
        \<and> entropy r = (if char_set_size (filter classified q) > 0
                        then real (length q) * log 2 (of_int (char_set_size (filter classified q)))
                        else 0)
        \<and> score r = length_points q + diversity_points (filter classified q)
                     + entropy_points (entropy r))
   \<and> (filter classified q = [] \<and> length q \<ge> 8 \<longrightarrow>
        (\<exists>r. evaluate_password_strength q = Inr r \<and> diversity_points q = 0 \<and> entropy r = 0
           \<and> score r = length_points q \<and> 1 \<le> length_points q))"
proof -
  have d: "diversity_points q = diversity_points (filter classified q)"
    by (simp add: diversity_points_eq any_in_filter_classified)
  have c: "char_set_size q = char_set_size (filter classified q)"
    by (simp add: char_set_size_eq any_in_filter_classified)
  have l: "length_points q = fst (length_criterion (replicate (length q) CHR ''a'') (0, []))"
    unfolding length_points_def by (rule arg_cong [OF length_criterion_cong]) simp
  have e: "\<exists>r. evaluate_password_strength q = Inr r
        \<and> entropy r = (if char_set_size (filter classified q) > 0
                        then real (length q) * log 2 (of_int (char_set_size (filter classified q)))
                        else 0)
        \<and> score r = length_points q + diversity_points (filter classified q)
                     + entropy_points (entropy r)"
    unfolding evaluate_eq by (simp add: the_entropy_def total_points_def c [symmetric] d [symmetric])
  have u: "\<exists>r. evaluate_password_strength q = Inr r \<and> diversity_points q = 0 \<and> entropy r = 0
           \<and> score r = length_points q \<and> 1 \<le> length_points q"
    if "filter classified q = []" "length q \<ge> 8"
  proof -
    have "diversity_points q = 0" "char_set_size q = 0"
      by (simp_all add: diversity_points_eq char_set_size_eq any_in_unclassified [OF that(1)])
    moreover have "the_entropy q = 0"
      using \<open>char_set_size q = 0\<close> by (simp add: the_entropy_def)
    moreover have "entropy_points 0 = 0"
      by (simp add: entropy_points_def entropy_criterion_def)
    moreover have "1 \<le> length_points q"
      using that(2) by (simp add: length_points_def length_criterion_def)
    ultimately show ?thesis
      unfolding evaluate_eq by (simp add: total_points_def)
  qed
  from d c l e u show ?thesis
    by blast
qed

theorem unclassified_characters_witness:
  "filter classified (replicate 9 CHR 0xE9 @ ''   '') = []
   \<and> length (replicate 9 CHR 0xE9 @ ''   '') \<ge> 8
   \<and> (\<exists>r. evaluate_password_strength (replicate 9 CHR 0xE9 @ ''   '') = Inr r
        \<and> diversity_points (replicate 9 CHR 0xE9 @ ''   '') = 0 \<and> entropy r = 0 \<and> score r = 3)"
proof -
  let ?q = "replicate 9 CHR 0xE9 @ ''   ''"
  have "\<not> classified CHR 0xE9" "\<not> classified CHR '' ''"
    by (simp_all add: classified_def string_ascii_lowercase_def string_ascii_uppercase_def
        string_digits_def string_punctuation_def)
  then have f: "filter classified ?q = []"
    by simp
  have n: "length ?q \<ge> 8"
    by simp
  have "length_points ?q = 3"
    by (simp add: length_points_def length_criterion_def)
  with unclassified_characters [of ?q] f n show ?thesis
    by auto
qed

subsection \<open>Facts about the random source and the generator\<close>

lemma secrets_choice_Inr:
  assumes "seq \<noteq> []"
  shows "\<exists>c rs'. secrets_choice seq rs = (Inr c, rs') \<and> c \<in> set seq"
proof -
  have "rs 0 mod length seq < length seq"
    using assms by simp
  then have "seq ! (rs 0 mod length seq) \<in> set seq"
    by (rule nth_mem)
  then show ?thesis
    using assms by (simp add: secrets_choice_def randbelow_def)
qed

lemma choices_Inr:
  assumes "seq \<noteq> []"
  shows "\<exists>cs rs'. choices n seq rs = (Inr cs, rs') \<and> length cs = n \<and> set cs \<subseteq> set seq"
proof (induction n arbitrary: rs)
  case 0
  show ?case
    by (simp add: return_gen_def)
next
  case (Suc n)
  obtain c rs1 where c: "secrets_choice seq rs = (Inr c, rs1)" "c \<in> set seq"
    using secrets_choice_Inr [OF assms] by blast
  obtain cs rs2 where cs: "choices n seq rs1 = (Inr cs, rs2)" "length cs = n" "set cs \<subseteq> set seq"
    using Suc.IH by blast
  have "choices (Suc n) seq rs = (Inr (c # cs), rs2)"
    by (simp add: bind_gen_def return_gen_def c(1) cs(1))
  with c(2) cs(2,3) show ?case
    by simp
qed

lemma shuffle_loop_mset:
  "k < length x \<Longrightarrow> mset (fst (shuffle_loop k x rs)) = mset x"
proof (induction k arbitrary: x rs)
  case 0
  show ?case
    by simp
next
  case (Suc k)
  let ?j = "rs 0 mod (Suc k + 1)"
  let ?x = "x[Suc k := x ! ?j, ?j := x ! Suc k]"
  have j: "?j < length x"
    using Suc.prems by (simp add: less_le_trans [OF mod_less_divisor])
  have "mset ?x = mset x"
    using mset_swap [OF j Suc.prems] .
  moreover have "mset (fst (shuffle_loop k ?x (\<lambda>k. rs (Suc k)))) = mset ?x"
    using Suc.prems by (intro Suc.IH) simp
  ultimately show ?case
    by (simp add: randbelow_def)
qed

lemma shuffle_mset: "mset (fst (shuffle x rs)) = mset x"
proof (cases x)
  case Nil
  then show ?thesis
    by (simp add: shuffle_def)
next
  case (Cons a as)
  then have "length x - 1 < length x"
    by simp
  then show ?thesis
    unfolding shuffle_def by (rule shuffle_loop_mset)
qed

lemma append_choice_Inr:
  assumes "flag \<Longrightarrow> alphabet \<noteq> []"
  shows "\<exists>password' rs'. append_choice flag alphabet password rs = (Inr password', rs')
           \<and> (if flag then \<exists>c\<in>set alphabet. password' = password @ [c]
               else password' = password)"
proof (cases flag)
  case True
  then obtain c rs1 where "secrets_choice alphabet rs = (Inr c, rs1)" "c \<in> set alphabet"
    using secrets_choice_Inr [OF assms] by blast
  with True show ?thesis
    by (simp add: append_choice_def bind_gen_def return_gen_def)
next
  case False
  then show ?thesis
    by (simp add: append_choice_def return_gen_def)
qed

lemma alphabets_nonempty:
  "string_ascii_lowercase \<noteq> []" "string_ascii_uppercase \<noteq> []" "string_digits \<noteq> []"
  "string_punctuation \<noteq> []"
  by (simp_all add: string_ascii_lowercase_def string_ascii_uppercase_def string_digits_def
      string_punctuation_def)

lemma all_characters_nonempty: "all_characters use_uppercase use_numbers use_symbols \<noteq> []"
  by (simp add: all_characters_def lowercase_letters_def alphabets_nonempty)

text \<open>The characters drawn first: one of each selected set, in the order of the sets.\<close>

lemma required_characters_Inr:
  "\<exists>password rs'. required_characters use_uppercase use_numbers use_symbols rs = (Inr password, rs')
     \<and> length password = 1 + (if use_uppercase then 1 else 0) + (if use_numbers then 1 else 0)
                           + (if use_symbols then 1 else 0)
     \<and> (\<exists>c\<in>set password. c \<in> set string_ascii_lowercase)
     \<and> (use_uppercase \<longrightarrow> (\<exists>c\<in>set password. c \<in> set string_ascii_uppercase))
     \<and> (use_numbers \<longrightarrow> (\<exists>c\<in>set password. c \<in> set string_digits))
     \<and> (use_symbols \<longrightarrow> (\<exists>c\<in>set password. c \<in> set string_punctuation))
     \<and> set password \<subseteq> set (all_characters use_uppercase use_numbers use_symbols)"
proof -
  obtain c rs1 where c: "secrets_choice lowercase_letters rs = (Inr c, rs1)"
      "c \<in> set string_ascii_lowercase"
    using secrets_choice_Inr [of lowercase_letters rs]
    by (auto simp add: lowercase_letters_def alphabets_nonempty)
  obtain p1 rs2 where p1:
      "append_choice use_uppercase (uppercase_letters use_uppercase) [c] rs1 = (Inr p1, rs2)"
      "if use_uppercase then \<exists>u\<in>set (uppercase_letters use_uppercase). p1 = [c] @ [u] else p1 = [c]"
    using append_choice_Inr [of use_uppercase "uppercase_letters use_uppercase" "[c]" rs1]
    by (auto simp add: uppercase_letters_def alphabets_nonempty)
  obtain p2 rs3 where p2:
      "append_choice use_numbers (digits use_numbers) p1 rs2 = (Inr p2, rs3)"
      "if use_numbers then \<exists>d\<in>set (digits use_numbers). p2 = p1 @ [d] else p2 = p1"
    using append_choice_Inr [of use_numbers "digits use_numbers" p1 rs2]
    by (auto simp add: digits_def alphabets_nonempty)
  obtain p3 rs4 where p3:
      "append_choice use_symbols (symbols use_symbols) p2 rs3 = (Inr p3, rs4)"
      "if use_symbols then \<exists>y\<in>set (symbols use_symbols). p3 = p2 @ [y] else p3 = p2"
    using append_choice_Inr [of use_symbols "symbols use_symbols" p2 rs3]
    by (auto simp add: symbols_def alphabets_nonempty)
  have r: "required_characters use_uppercase use_numbers use_symbols rs = (Inr p3, rs4)"
    by (simp add: required_characters_def bind_gen_def c(1) p1(1) p2(1) p3(1))
  have s1: "set p1 \<subseteq> set (all_characters use_uppercase use_numbers use_symbols)"
    using c(2) p1(2) by (auto simp add: all_characters_def lowercase_letters_def split: if_splits)
  have s2: "set p2 \<subseteq> set (all_characters use_uppercase use_numbers use_symbols)"
    using s1 p2(2) by (auto simp add: all_characters_def split: if_splits)
  have s3: "set p3 \<subseteq> set (all_characters use_uppercase use_numbers use_symbols)"
    using s2 p3(2) by (auto simp add: all_characters_def split: if_splits)
  have len: "length p3 = 1 + (if use_uppercase then 1 else 0) + (if use_numbers then 1 else 0)
                           + (if use_symbols then 1 else 0)"
    using p1(2) p2(2) p3(2) by (auto split: if_splits)
  have lo: "\<exists>c\<in>set p3. c \<in> set string_ascii_lowercase"
    using c(2) p1(2) p2(2) p3(2) by (auto split: if_splits)
  have up: "\<exists>c\<in>set p3. c \<in> set string_ascii_uppercase" if use_uppercase
    using that p1(2) p2(2) p3(2) by (auto simp add: uppercase_letters_def split: if_splits)
  have di: "\<exists>c\<in>set p3. c \<in> set string_digits" if use_numbers
    using that p2(2) p3(2) by (auto simp add: digits_def split: if_splits)
  have sy: "\<exists>c\<in>set p3. c \<in> set string_punctuation" if use_symbols
    using that p3(2) by (auto simp add: symbols_def split: if_splits)
  from r len lo up di sy s3 show ?thesis
    by blast
qed

text \<open>
  The run of the generator: the required characters, the rest, and the shuffle of
  both.
\<close>

lemma generate_password_run:
  "\<exists>password rs1 rest rs2.
     required_characters use_uppercase use_numbers use_symbols rs = (Inr password, rs1)
     \<and> choices (nat (remaining_length (snd (ensure_minimum_length length')) password))
          (all_characters use_uppercase use_numbers use_symbols) rs1 = (Inr rest, rs2)
     \<and> length rest = nat (remaining_length (snd (ensure_minimum_length length')) password)
     \<and> set rest \<subseteq> set (all_characters use_uppercase use_numbers use_symbols)
     \<and> generate_password length' use_uppercase use_numbers use_symbols rs
         = (fst (ensure_minimum_length length'), Inr (fst (shuffle (password @ rest) rs2)))"
proof -
  obtain password rs1 where p:
      "required_characters use_uppercase use_numbers use_symbols rs = (Inr password, rs1)"
    using required_characters_Inr [of use_uppercase use_numbers use_symbols rs] by blast
  obtain rest rs2 where r:
      "choices (nat (remaining_length (snd (ensure_minimum_length length')) password))
          (all_characters use_uppercase use_numbers use_symbols) rs1 = (Inr rest, rs2)"
      "length rest = nat (remaining_length (snd (ensure_minimum_length length')) password)"
      "set rest \<subseteq> set (all_characters use_uppercase use_numbers use_symbols)"
    using choices_Inr [OF all_characters_nonempty] by blast
  have "generate_password length' use_uppercase use_numbers use_symbols rs
         = (fst (ensure_minimum_length length'), Inr (fst (shuffle (password @ rest) rs2)))"
    by (simp add: generate_password_def all_characters_nonempty bind_gen_def p r(1)
        split_beta)
  with p r show ?thesis
    by blast
qed

lemma ensure_minimum_length_eq:
  "ensure_minimum_length length' =
     (if length' < 8 then ([''Password length must be at least 8. Setting length to 8.''], 8)
      else ([], length'))"
proof -
  have "digit_char 8 = CHR ''8''"
    unfolding digit_char_def by code_simp
  then have "str_nat 8 = ''8''"
    by (subst str_nat.simps) simp
  then show ?thesis
    by (simp add: ensure_minimum_length_def MIN_LENGTH_def str_int_def)
qed

text \<open>Two runs, on the sources \<open>0, 1, 2, \<dots>\<close> and \<open>3, 10, 17, \<dots>\<close>.\<close>

lemma generate_password_example:
  "generate_password 8 False False False (\<lambda>k. k) = ([], Inr ''gdfhbeca'')"
  by code_simp

lemma generate_password_example_short:
  "generate_password 3 True True True (\<lambda>k. 7 * k + 3)
     = ([''Password length must be at least 8. Setting length to 8.''], Inr ''F7MTdK0]'')"
  by code_simp

subsection \<open>Properties of the generator\<close>

text \<open>
  Claim C1. For a length of at least 8 and any flags, whatever the random source
  delivers, the generator returns a password of exactly that length, with a lowercase
  letter and a character of each class whose flag is set; all its characters are of
  the selected sets, and nothing is printed.
\<close>

theorem generate_length_and_classes:
  "8 \<le> length' \<Longrightarrow>
   \<exists>pw. generate_password length' use_uppercase use_numbers use_symbols rs = ([], Inr pw)
     \<and> int (length pw) = length'
     \<and> (\<exists>c\<in>set pw. c \<in> set string_ascii_lowercase)
     \<and> (use_uppercase \<longrightarrow> (\<exists>c\<in>set pw. c \<in> set string_ascii_uppercase))
     \<and> (use_numbers \<longrightarrow> (\<exists>c\<in>set pw. c \<in> set string_digits))
     \<and> (use_symbols \<longrightarrow> (\<exists>c\<in>set pw. c \<in> set string_punctuation))
     \<and> set pw \<subseteq> set (all_characters use_uppercase use_numbers use_symbols)"
proof -
  assume l: "8 \<le> length'"
  then have m: "ensure_minimum_length length' = ([], length')"
    by (simp add: ensure_minimum_length_eq)
  obtain password rs1 where p:
      "required_characters use_uppercase use_numbers use_symbols rs = (Inr password, rs1)"
      "length password = 1 + (if use_uppercase then 1 else 0) + (if use_numbers then 1 else 0)
                           + (if use_symbols then 1 else 0)"
      "\<exists>c\<in>set password. c \<in> set string_ascii_lowercase"
      "use_uppercase \<longrightarrow> (\<exists>c\<in>set password. c \<in> set string_ascii_uppercase)"
      "use_numbers \<longrightarrow> (\<exists>c\<in>set password. c \<in> set string_digits)"
      "use_symbols \<longrightarrow> (\<exists>c\<in>set password. c \<in> set string_punctuation)"
      "set password \<subseteq> set (all_characters use_uppercase use_numbers use_symbols)"
    using required_characters_Inr [of use_uppercase use_numbers use_symbols rs] by blast
  obtain rest rs2 where r:
      "length rest = nat (remaining_length length' password)"
      "set rest \<subseteq> set (all_characters use_uppercase use_numbers use_symbols)"
      "generate_password length' use_uppercase use_numbers use_symbols rs
         = ([], Inr (fst (shuffle (password @ rest) rs2)))"
    using generate_password_run [of use_uppercase use_numbers use_symbols rs length'] p(1) m
    by auto
  let ?pw = "fst (shuffle (password @ rest) rs2)"
  have ms: "mset ?pw = mset (password @ rest)"
    by (rule shuffle_mset)
  then have st: "set ?pw = set password \<union> set rest"
    using mset_eq_setD [OF ms] by simp
  have "length password \<le> 4"
    using p(2) by simp
  then have "int (length (password @ rest)) = length'"
    using l r(1) by (simp add: remaining_length_def)
  then have len: "int (length ?pw) = length'"
    using mset_eq_length [OF ms] by simp
  have lo: "\<exists>c\<in>set ?pw. c \<in> set string_ascii_lowercase"
    using p(3) st by auto
  have up: "use_uppercase \<longrightarrow> (\<exists>c\<in>set ?pw. c \<in> set string_ascii_uppercase)"
    using p(4) st by auto
  have di: "use_numbers \<longrightarrow> (\<exists>c\<in>set ?pw. c \<in> set string_digits)"
    using p(5) st by auto
  have sy: "use_symbols \<longrightarrow> (\<exists>c\<in>set ?pw. c \<in> set string_punctuation)"
    using p(6) st by auto
  have su: "set ?pw \<subseteq> set (all_characters use_uppercase use_numbers use_symbols)"
    using p(7) r(2) st by auto
  from r(3) len lo up di sy su show ?thesis
    by (intro exI [of _ ?pw] conjI)
qed

theorem generate_length_and_classes_witness:
  "(8::int) \<le> 8
   \<and> generate_password 8 False False False (\<lambda>k. k) = ([], Inr ''gdfhbeca'')
   \<and> int (length ''gdfhbeca'') = 8
   \<and> (\<exists>c\<in>set ''gdfhbeca''. c \<in> set string_ascii_lowercase)
   \<and> set ''gdfhbeca'' \<subseteq> set (all_characters False False False)"
  using generate_length_and_classes [of 8 False False False "\<lambda>k. k"]
  by (auto simp add: generate_password_example)

text \<open>
  Claim C5. For a length below 8 and any flags, the generator prints that the length
  is set to 8 and returns a password of exactly 8 characters; it does not fail.
\<close>

theorem generate_short_length:
  "length' < 8 \<Longrightarrow>
   \<exists>pw. generate_password length' use_uppercase use_numbers use_symbols rs
          = ([''Password length must be at least 8. Setting length to 8.''], Inr pw)
     \<and> length pw = 8 \<and> int (length pw) \<noteq> length'"
proof -
  assume l: "length' < 8"
  then have m: "ensure_minimum_length length'
      = ([''Password length must be at least 8. Setting length to 8.''], 8)"
    by (simp add: ensure_minimum_length_eq)
  obtain password rs1 where p:
      "required_characters use_uppercase use_numbers use_symbols rs = (Inr password, rs1)"
      "length password = 1 + (if use_uppercase then 1 else 0) + (if use_numbers then 1 else 0)
                           + (if use_symbols then 1 else 0)"
    using required_characters_Inr [of use_uppercase use_numbers use_symbols rs] by blast
  obtain rest rs2 where r:
      "length rest = nat (remaining_length 8 password)"
      "generate_password length' use_uppercase use_numbers use_symbols rs
         = ([''Password length must be at least 8. Setting length to 8.''],
            Inr (fst (shuffle (password @ rest) rs2)))"
    using generate_password_run [of use_uppercase use_numbers use_symbols rs length'] p(1) m
    by auto
  let ?pw = "fst (shuffle (password @ rest) rs2)"
  have "length password \<le> 4"
    using p(2) by simp
  then have "length (password @ rest) = 8"
    using r(1) by (simp add: remaining_length_def)
  then have "length ?pw = 8"
    using mset_eq_length [OF shuffle_mset [of "password @ rest" rs2]] by simp
  with r(2) l show ?thesis
    by auto
qed

theorem generate_short_length_witness:
  "(3::int) < 8
   \<and> generate_password 3 True True True (\<lambda>k. 7 * k + 3)
       = ([''Password length must be at least 8. Setting length to 8.''], Inr ''F7MTdK0]'')
   \<and> length ''F7MTdK0]'' = 8"
  using generate_short_length [of 3 True True True "\<lambda>k. 7 * k + 3"]
  by (auto simp add: generate_password_example_short)

text \<open>
  Claim C8. For every length, all flags and every random source, the set of all
  characters is not empty and the generator raises no exception, so in particular
  not the one of the check for an empty set.
\<close>

theorem generate_never_raises:
  "all_characters use_uppercase use_numbers use_symbols \<noteq> []
   \<and> (\<forall>e. snd (generate_password length' use_uppercase use_numbers use_symbols rs) \<noteq> Inl e)"
  using generate_password_run [of use_uppercase use_numbers use_symbols rs length']
  by (auto simp add: all_characters_nonempty)

text \<open>
  Claim C10. For every input, at most 4 required characters are drawn and the length
  in force is at least 8, so the number of the remaining draws is not negative (it is
  at least 4), and the password returned consists of the required characters and
  that many others: none of the required ones is cut off.
\<close>

theorem remaining_length_nonnegative:
  "\<exists>password rs' rest pw.
     required_characters use_uppercase use_numbers use_symbols rs = (Inr password, rs')
     \<and> length password \<le> 4
     \<and> 8 \<le> snd (ensure_minimum_length length')
     \<and> 4 \<le> remaining_length (snd (ensure_minimum_length length')) password
     \<and> int (length rest) = remaining_length (snd (ensure_minimum_length length')) password
     \<and> snd (generate_password length' use_uppercase use_numbers use_symbols rs) = Inr pw
     \<and> mset pw = mset password + mset rest"
proof -
  obtain password rs1 rest rs2 where g:
     "required_characters use_uppercase use_numbers use_symbols rs = (Inr password, rs1)"
     "length rest = nat (remaining_length (snd (ensure_minimum_length length')) password)"
     "generate_password length' use_uppercase use_numbers use_symbols rs
         = (fst (ensure_minimum_length length'), Inr (fst (shuffle (password @ rest) rs2)))"
    using generate_password_run [of use_uppercase use_numbers use_symbols rs length'] by blast
  have "length password = 1 + (if use_uppercase then 1 else 0) + (if use_numbers then 1 else 0)
                           + (if use_symbols then 1 else 0)"
    using required_characters_Inr [of use_uppercase use_numbers use_symbols rs] g(1) by auto
  then have p: "length password \<le> 4"
    by simp
  have m: "8 \<le> snd (ensure_minimum_length length')"
    by (simp add: ensure_minimum_length_eq)
  have r: "4 \<le> remaining_length (snd (ensure_minimum_length length')) password"
    using p m by (simp add: remaining_length_def)
  then have "int (length rest) = remaining_length (snd (ensure_minimum_length length')) password"
    using g(2) by simp
  moreover have "mset (fst (shuffle (password @ rest) rs2)) = mset password + mset rest"
    by (simp add: shuffle_mset)
  ultimately show ?thesis
    using g(1,3) p m r by auto
qed

end
